theory Spec2Isabelle
  imports Main
begin

section \<open>JavaScript values and exceptions\<close>

text \<open>
  Provider payloads, parsed webhook events and the \<open>Mixed\<close> fields of the payment schema
  are untyped JavaScript values. Numbers are modelled as integers (amounts in this
  backend are whole currency units); \<open>NaN\<close> and fractions are outside the model.
\<close>

datatype jsval =
    JUndefined
  | JNull
  | JBool bool
  | JNum int
  | JStr string
  | JArr "jsval list"
  | JObj "(string \<times> jsval) list"

datatype error =
    TypeError
  | SyntaxError
  | TransportError
  | ValidationError
  | CastError
  | Error string

text \<open>
  Property access \<open>v.k\<close>: reading a property of \<open>undefined\<close> or \<open>null\<close> throws a
  TypeError (destructuring \<open>const { k } = v\<close> throws in the same cases); an object yields
  the member or \<open>undefined\<close>; the other values have none of the members the routes read.
\<close>

fun getprop :: "jsval \<Rightarrow> string \<Rightarrow> error + jsval" where
  "getprop JUndefined k = Inl TypeError"
| "getprop JNull k = Inl TypeError"
| "getprop (JObj kvs) k = Inr (case map_of kvs k of None \<Rightarrow> JUndefined | Some v \<Rightarrow> v)"
| "getprop v k = Inr JUndefined"

fun truthy :: "jsval \<Rightarrow> bool" where
  "truthy JUndefined = False"
| "truthy JNull = False"
| "truthy (JBool b) = b"
| "truthy (JNum n) = (n \<noteq> 0)"
| "truthy (JStr s) = (s \<noteq> [])"
| "truthy v = True"

section \<open>The payment document (models/Payment.js)\<close>

datatype pay_status = pending | processing | completed | failed | cancelled | refunded

text \<open>
  One field per path of \<open>paymentSchema\<close>, plus the document id. Dates are instants
  (\<open>nat\<close>, milliseconds); an absent date is \<open>None\<close>. An unset \<open>reference\<close> is the empty
  string: the only test the code makes on it is \<open>!this.reference\<close>, which holds for
  \<open>undefined\<close> and for \<open>''\<close> alike.
\<close>

record payment =
  pid :: string
  user :: string
  booking :: string
  amount :: int
  currency :: string
  paymentMethod :: string
  paymentProvider :: string
  status :: pay_status
  transactionId :: jsval
  reference :: string
  providerResponse :: jsval
  paidAt :: "nat option"
  dueDate :: "nat option"
  description :: string
  notes_text :: string
  refundAmount :: int
  refundedAt :: "nat option"
  refundReason :: string
  verified :: bool
  verifiedAt :: "nat option"
  failureReason :: string
  retryCount :: int
  metadata :: jsval

text \<open>
  What a call reads from its surroundings: the clock (\<open>new Date()\<close>, \<open>Date.now()\<close>), the
  output of \<open>Math.random().toString(36).substr(2, 9).toUpperCase()\<close>, and the decimal
  rendering of the clock used in a generated reference.
\<close>

record clock =
  now :: nat
  now_text :: string
  random_text :: string

text \<open>The \<open>pre('save')\<close> hook of the payment schema.\<close>

definition pre_save :: "clock \<Rightarrow> payment \<Rightarrow> payment" where
  "pre_save c p =
     (let p1 = (if reference p = []
                then p\<lparr>reference := ''PAY_'' @ now_text c @ ''_'' @ random_text c\<rparr>
                else p);
          p2 = (if status p1 = completed \<and> paidAt p1 = None
                then p1\<lparr>paidAt := Some (now c), verified := True, verifiedAt := Some (now c)\<rparr>
                else p1);
          p3 = (if status p2 = refunded \<and> refundedAt p2 = None
                then p2\<lparr>refundedAt := Some (now c)\<rparr>
                else p2)
      in p3)"

text \<open>
  The validators that \<open>paymentSchema\<close> declares: the \<open>required\<close> paths, the \<open>enum\<close> lists
  and \<open>min: 0\<close> on the amount (\<open>status\<close> is required and enumerated too; its type here
  admits nothing else). Mongoose runs them inside \<open>save\<close> before the document's own
  \<open>pre('save')\<close> hooks.
\<close>

definition validate :: "payment \<Rightarrow> bool" where
  "validate p =
     (user p \<noteq> [] \<and> booking p \<noteq> [] \<and> 0 \<le> amount p \<and>
      currency p \<in> set [''NGN'', ''USD'', ''EUR'', ''GBP''] \<and>
      paymentMethod p \<in> set [''card'', ''bank_transfer'', ''ussd'', ''qr'', ''mobile_money'', ''cash''] \<and>
      paymentProvider p \<in> set [''paystack'', ''flutterwave'', ''stripe'', ''cash'', ''bank_transfer''] \<and>
      reference p \<noteq> [])"

text \<open>
  The payment collection is a list in insertion order (\<open>findOne\<close> returns the first
  match). Saving a new document validates it, runs the hook and appends it; a document
  that fails validation makes \<open>save\<close> throw before the hook runs and before anything is
  written. Saving a loaded document runs the hook and replaces the stored document with
  the same id; the validators are taken to pass there (a stored document has passed them
  before, and the methods below assign a status, dates, a counter, amounts and the
  provider's answer). Index violations of the database are not part of the model.
\<close>

definition update_doc :: "payment \<Rightarrow> payment list \<Rightarrow> payment list" where
  "update_doc p ps = map (\<lambda>q. if pid q = pid p then p else q) ps"

definition save_new ::
  "clock \<Rightarrow> payment \<Rightarrow> payment list \<Rightarrow> error + payment \<times> payment list" where
  "save_new c p ps =
     (if validate p then (let p' = pre_save c p in Inr (p', ps @ [p']))
      else Inl ValidationError)"

definition save :: "clock \<Rightarrow> payment \<Rightarrow> payment list \<Rightarrow> payment \<times> payment list" where
  "save c p ps = (let p' = pre_save c p in (p', update_doc p' ps))"

text \<open>A default parameter \<open>providerResponse = {}\<close> replaces \<open>undefined\<close> only.\<close>

definition default_object :: "jsval \<Rightarrow> jsval" where
  "default_object v = (if v = JUndefined then JObj [] else v)"

definition markAsCompleted ::
  "clock \<Rightarrow> jsval \<Rightarrow> jsval \<Rightarrow> payment \<Rightarrow> payment list \<Rightarrow> payment \<times> payment list" where
  "markAsCompleted c tid resp p ps =
     save c (p\<lparr>status := completed,
               transactionId := tid,
               providerResponse := default_object resp,
               paidAt := Some (now c),
               verified := True,
               verifiedAt := Some (now c)\<rparr>) ps"

definition markAsFailed ::
  "clock \<Rightarrow> string \<Rightarrow> jsval \<Rightarrow> payment \<Rightarrow> payment list \<Rightarrow> payment \<times> payment list" where
  "markAsFailed c reason resp p ps =
     save c (p\<lparr>status := failed,
               failureReason := reason,
               providerResponse := default_object resp,
               retryCount := retryCount p + 1\<rparr>) ps"

text \<open>
  \<open>processRefund\<close> throws before it assigns anything; the result carries the thrown
  error (if any), the document as the caller holds it afterwards, and the collection.
\<close>

definition processRefund ::
  "clock \<Rightarrow> int \<Rightarrow> string \<Rightarrow> payment \<Rightarrow> payment list
     \<Rightarrow> error option \<times> payment \<times> payment list" where
  "processRefund c amt reason p ps =
     (if status p \<noteq> completed
      then (Some (Error ''Can only refund completed payments''), p, ps)
      else if amt > amount p
      then (Some (Error ''Refund amount cannot exceed payment amount''), p, ps)
      else (let (p', ps') = save c (p\<lparr>status := refunded,
                                      refundAmount := amt,
                                      refundReason := reason,
                                      refundedAt := Some (now c)\<rparr>) ps
            in (None, p', ps')))"

section \<open>Bookings and users (models/Booking.js, the \<open>protect\<close> middleware)\<close>

text \<open>
  Of a stored booking and of the authenticated user, what the payment routes read or
  write. \<open>bookingSchema\<close> has no \<open>user\<close>, \<open>referenceNumber\<close> or \<open>paymentStatus\<close> path.
  The initialize route filters bookings on a \<open>user\<close> member all the same, so the stored
  document carries an optional one (\<open>None\<close> for every booking written through the
  schema). A loaded booking has only the schema's paths: \<open>booking.referenceNumber\<close> reads
  \<open>undefined\<close>, and an assignment to \<open>booking.paymentStatus\<close> is not written by \<open>save\<close>. The
  \<open>pre('save')\<close> hook of the booking schema stamps \<open>updatedAt\<close>.
\<close>

record booking_doc =
  b_id :: string
  b_user :: "string option"
  b_testType :: string
  b_status :: string
  b_updatedAt :: nat

record user_doc =
  u_id :: string
  u_firstName :: string
  u_lastName :: string
  u_email :: string

definition save_booking ::
  "clock \<Rightarrow> booking_doc \<Rightarrow> booking_doc list \<Rightarrow> booking_doc \<times> booking_doc list" where
  "save_booking c b bs =
     (let b' = b\<lparr>b_updatedAt := now c\<rparr>
      in (b', map (\<lambda>q. if b_id q = b_id b' then b' else q) bs))"

section \<open>The payment routes\<close>

text \<open>
  The outbound requests of the routes (\<open>axios.post\<close> to \<open>/transaction/initialize\<close> with
  the amount in minor units, \<open>axios.get\<close> to \<open>/transaction/verify/:reference\<close>). Every
  request made is appended to \<open>gateway_calls\<close>, so that "no gateway call" is a statement
  about the state.
\<close>

datatype gateway_call =
    InitializeTransaction int string string string string string
  | VerifyTransaction string

record world =
  payments :: "payment list"
  bookings :: "booking_doc list"
  gateway_calls :: "gateway_call list"

text \<open>
  The surroundings of a request: the clock, the id given to a new document, the
  provider (the body of its answer, or the exception \<open>axios\<close> throws), the keyed hash
  \<open>crypto.createHmac('sha512', key).update(text).digest('hex')\<close>, \<open>JSON.parse\<close>, the
  environment variable holding the secret key, and two answers of the database library:
  whether a string casts to an ObjectId, and what \<open>Payment.findOne({ reference: v })\<close>
  yields for a value \<open>v\<close> that is not a string (a query operator object such as
  \<open>{"$ne": null}\<close> can select a stored payment, a plain object or an array throws a
  CastError). The library functions are parameters: every theorem below holds for all
  of them.
\<close>

record env =
  clk :: clock
  new_id :: string
  gateway :: "gateway_call \<Rightarrow> error + jsval"
  hmac_sha512_hex :: "string \<Rightarrow> string \<Rightarrow> string"
  JSON_parse :: "string \<Rightarrow> error + jsval"
  env_PAYSTACK_SECRET_KEY :: "string option"
  is_ObjectId :: "string \<Rightarrow> bool"
  findOne_by_value :: "jsval \<Rightarrow> payment list \<Rightarrow> error + payment option"

definition PAYSTACK_SECRET_KEY :: "env \<Rightarrow> string" where
  "PAYSTACK_SECRET_KEY e =
     (case env_PAYSTACK_SECRET_KEY e of
        None \<Rightarrow> ''sk_test_your_secret_key''
      | Some k \<Rightarrow> if k = [] then ''sk_test_your_secret_key'' else k)"

subsection \<open>Signature check\<close>

text \<open>
  The webhook route is mounted behind \<open>express.raw\<close>, so \<open>req.body\<close> is a Buffer holding
  the bytes received. \<open>JSON.stringify\<close> of a Buffer goes through \<open>Buffer.toJSON\<close> and
  yields the text \<open>{"type":"Buffer","data":[b0,b1,...]}\<close> with every byte in decimal.
\<close>

fun decimal :: "nat \<Rightarrow> string" where
  "decimal n = (if n < 10 then [char_of (48 + n)]
                else decimal (n div 10) @ [char_of (48 + n mod 10)])"

declare decimal.simps [simp del]

fun join_commas :: "string list \<Rightarrow> string" where
  "join_commas [] = []"
| "join_commas [x] = x"
| "join_commas (x # y # ys) = x @ '','' @ join_commas (y # ys)"

definition JSON_stringify_Buffer :: "string \<Rightarrow> string" where
  \<open>JSON_stringify_Buffer payload =
     ''{"type":"Buffer","data":['' @ join_commas (map (\<lambda>c. decimal (of_char c)) payload) @ '']}''\<close>

definition verifyPaystackSignature :: "env \<Rightarrow> string \<Rightarrow> string \<Rightarrow> bool" where
  "verifyPaystackSignature e payload signature =
     (hmac_sha512_hex e (PAYSTACK_SECRET_KEY e) (JSON_stringify_Buffer payload) = signature)"

subsection \<open>Responses\<close>

record payment_summary =
  s_id :: string
  s_reference :: string
  s_amount :: int
  s_currency :: string
  s_status :: pay_status
  s_paymentMethod :: string
  s_authorization_url :: jsval
  s_access_code :: jsval

text \<open>
  \<open>JsonError n msg\<close> is \<open>res.status(n).json({ error: msg })\<close>; \<open>JsonFailure n msg err\<close> is
  the answer of a \<open>catch\<close> block, carrying the caught exception; \<open>Created msg s\<close> is the
  201 answer of the initialize route; \<open>OkPayment p b\<close> is \<open>res.json({ success: true, payment })\<close>
  with the populated booking; \<open>SendStatus n\<close> is \<open>res.sendStatus(n)\<close>.
\<close>

datatype response =
    JsonError nat string
  | JsonFailure nat string error
  | Created string payment_summary
  | OkPayment payment "booking_doc option"
  | SendStatus nat

fun status_code :: "response \<Rightarrow> nat" where
  "status_code (JsonError n m) = n"
| "status_code (JsonFailure n m err) = n"
| "status_code (Created m s) = 201"
| "status_code (OkPayment p b) = 200"
| "status_code (SendStatus n) = n"

definition summary :: "payment \<Rightarrow> jsval \<Rightarrow> jsval \<Rightarrow> payment_summary" where
  "summary p url code =
     \<lparr>s_id = pid p, s_reference = reference p, s_amount = amount p, s_currency = currency p,
      s_status = status p, s_paymentMethod = paymentMethod p,
      s_authorization_url = url, s_access_code = code\<rparr>"

subsection \<open>POST /initialize\<close>

text \<open>
  The request body after destructuring; a member that is absent is \<open>None\<close>. The defaults
  \<open>paymentMethod = 'card'\<close> and \<open>currency = 'NGN'\<close> replace an absent member only.
  \<open>Booking.findOne({ _id: bookingId, user })\<close> casts \<open>bookingId\<close> to an ObjectId and throws a
  CastError when it is none.
\<close>

record init_request =
  req_bookingId :: "string option"
  req_amount :: "int option"
  req_paymentMethod :: "string option"
  req_currency :: "string option"

definition new_Payment ::
  "env \<Rightarrow> user_doc \<Rightarrow> booking_doc \<Rightarrow> string \<Rightarrow> int \<Rightarrow> string \<Rightarrow> string \<Rightarrow> payment" where
  "new_Payment e u bk bookingId amt cur method =
     \<lparr>pid = new_id e,
      user = u_id u,
      booking = bookingId,
      amount = amt,
      currency = cur,
      paymentMethod = method,
      paymentProvider = (if method = ''cash'' then ''cash'' else ''paystack''),
      status = pending,
      transactionId = JUndefined,
      reference = [],
      providerResponse = JObj [],
      paidAt = None,
      dueDate = None,
      description = ''Payment for '' @ b_testType bk @ '' - undefined'',
      notes_text = [],
      refundAmount = 0,
      refundedAt = None,
      refundReason = [],
      verified = False,
      verifiedAt = None,
      failureReason = [],
      retryCount = 0,
      metadata = JObj [(''bookingReference'', JUndefined),
                       (''testType'', JStr (b_testType bk)),
                       (''customerName'', JStr (u_firstName u @ '' '' @ u_lastName u)),
                       (''customerEmail'', JStr (u_email u))]\<rparr>"

text \<open>
  The part of the route after the cash branch: the request to the provider, then the
  answer. Every exception lands in the route's \<open>catch\<close>, which answers 500 and leaves the
  writes already made in place.
\<close>

definition initialize_online ::
  "env \<Rightarrow> user_doc \<Rightarrow> string \<Rightarrow> int \<Rightarrow> string \<Rightarrow> payment \<Rightarrow> world \<Rightarrow> response \<times> world" where
  "initialize_online e u bookingId amt cur p w =
     (let call = InitializeTransaction (amt * 100) (u_email u) (reference p) cur (pid p) bookingId;
          w1 = w\<lparr>gateway_calls := gateway_calls w @ [call]\<rparr>
      in case gateway e call of
           Inl err \<Rightarrow> (JsonFailure 500 ''Failed to initialize payment'' err, w1)
         | Inr body \<Rightarrow>
            (case getprop body ''status'' of
               Inl err \<Rightarrow> (JsonFailure 500 ''Failed to initialize payment'' err, w1)
             | Inr st \<Rightarrow>
                if truthy st then
                  (case getprop body ''data'' of
                     Inl err \<Rightarrow> (JsonFailure 500 ''Failed to initialize payment'' err, w1)
                   | Inr d \<Rightarrow>
                      (let (p', ps') = save (clk e) (p\<lparr>status := processing, providerResponse := d\<rparr>)
                                         (payments w1);
                           w2 = w1\<lparr>payments := ps'\<rparr>
                       in case getprop d ''authorization_url'' of
                            Inl err \<Rightarrow> (JsonFailure 500 ''Failed to initialize payment'' err, w2)
                          | Inr url \<Rightarrow>
                             (case getprop d ''access_code'' of
                                Inl err \<Rightarrow> (JsonFailure 500 ''Failed to initialize payment'' err, w2)
                              | Inr code \<Rightarrow>
                                 (Created ''Payment initialized successfully'' (summary p' url code), w2))))
                else (JsonFailure 500 ''Failed to initialize payment''
                        (Error ''Failed to initialize payment with Paystack''), w1)))"

definition initialize :: "env \<Rightarrow> user_doc \<Rightarrow> init_request \<Rightarrow> world \<Rightarrow> response \<times> world" where
  "initialize e u r w =
     (let bookingId = (case req_bookingId r of None \<Rightarrow> [] | Some b \<Rightarrow> b);
          amt = (case req_amount r of None \<Rightarrow> 0 | Some a \<Rightarrow> a);
          method = (case req_paymentMethod r of None \<Rightarrow> ''card'' | Some m \<Rightarrow> m);
          cur = (case req_currency r of None \<Rightarrow> ''NGN'' | Some c \<Rightarrow> c)
      in if bookingId = [] \<or> amt = 0
         then (JsonError 400 ''Booking ID and amount are required'', w)
         else if \<not> is_ObjectId e bookingId
         then (JsonFailure 500 ''Failed to initialize payment'' CastError, w)
         else case find (\<lambda>b. b_id b = bookingId \<and> b_user b = Some (u_id u)) (bookings w) of
                None \<Rightarrow> (JsonError 404 ''Booking not found'', w)
              | Some bk \<Rightarrow>
                 (case find (\<lambda>p. booking p = bookingId \<and> (status p = completed \<or> status p = processing))
                         (payments w) of
                    Some existingPayment \<Rightarrow> (JsonError 400 ''Payment already exists for this booking'', w)
                  | None \<Rightarrow>
                     (case save_new (clk e) (new_Payment e u bk bookingId amt cur method) (payments w) of
                        Inl err \<Rightarrow> (JsonFailure 500 ''Failed to initialize payment'' err, w)
                      | Inr (p, ps') \<Rightarrow>
                         (let w1 = w\<lparr>payments := ps'\<rparr>
                          in if method = ''cash''
                             then (Created ''Cash payment initialized''
                                     (summary p JUndefined JUndefined), w1)
                             else initialize_online e u bookingId amt cur p w1))))"

subsection \<open>POST /verify/:reference\<close>

text \<open>
  \<open>Payment.findOne({ reference })\<close> for a string: the first stored payment with that
  reference. The verify route always has a string (a path parameter). The webhook route
  passes whatever the payload carries: for a value that is not a string the answer is the
  library's (\<open>findOne_by_value\<close>).
\<close>

definition findOne_reference :: "string \<Rightarrow> payment list \<Rightarrow> payment option" where
  "findOne_reference s ps = find (\<lambda>p. reference p = s) ps"

definition findOne_payload_reference ::
  "env \<Rightarrow> jsval \<Rightarrow> payment list \<Rightarrow> error + payment option" where
  "findOne_payload_reference e r ps =
     (case r of JStr s \<Rightarrow> Inr (findOne_reference s ps) | _ \<Rightarrow> findOne_by_value e r ps)"

definition findById_booking :: "string \<Rightarrow> booking_doc list \<Rightarrow> booking_doc option" where
  "findById_booking i bs = find (\<lambda>b. b_id b = i) bs"

text \<open>
  Booking linkage: \<open>booking.status = 'confirmed'\<close>, then \<open>booking.save()\<close>. The route also
  assigns \<open>booking.paymentStatus = 'paid'\<close>; \<open>bookingSchema\<close> has no such path, so nothing of
  it is stored.
\<close>

definition confirm_booking :: "clock \<Rightarrow> booking_doc \<Rightarrow> world \<Rightarrow> booking_doc \<times> world" where
  "confirm_booking c b w =
     (let (b', bs') = save_booking c (b\<lparr>b_status := ''confirmed''\<rparr>) (bookings w)
      in (b', w\<lparr>bookings := bs'\<rparr>))"

definition verify :: "env \<Rightarrow> string \<Rightarrow> world \<Rightarrow> response \<times> world" where
  "verify e ref w =
     (case findOne_reference ref (payments w) of
        None \<Rightarrow> (JsonError 404 ''Payment not found'', w)
      | Some p \<Rightarrow>
         (let populated = findById_booking (booking p) (bookings w)
          in if paymentMethod p \<noteq> ''cash'' then
               (let call = VerifyTransaction ref;
                    w1 = w\<lparr>gateway_calls := gateway_calls w @ [call]\<rparr>
                in case gateway e call of
                     Inl err \<Rightarrow> (JsonFailure 500 ''Failed to verify payment'' err, w1)
                   | Inr body \<Rightarrow>
                      (case getprop body ''data'' of
                         Inl err \<Rightarrow> (JsonFailure 500 ''Failed to verify payment'' err, w1)
                       | Inr verificationData \<Rightarrow>
                          (case getprop verificationData ''status'' of
                             Inl err \<Rightarrow> (JsonFailure 500 ''Failed to verify payment'' err, w1)
                           | Inr st \<Rightarrow>
                              if st = JStr ''success'' then
                                (case getprop verificationData ''id'' of
                                   Inl err \<Rightarrow> (JsonFailure 500 ''Failed to verify payment'' err, w1)
                                 | Inr tid \<Rightarrow>
                                    (let (p', ps') = markAsCompleted (clk e) tid verificationData p
                                                       (payments w1);
                                         w2 = w1\<lparr>payments := ps'\<rparr>
                                     in case populated of
                                          None \<Rightarrow> (OkPayment p' None, w2)
                                        | Some b \<Rightarrow>
                                           (let (b', w3) = confirm_booking (clk e) b w2
                                            in (OkPayment p' (Some b'), w3))))
                              else
                                (let (p', ps') = markAsFailed (clk e) ''Payment verification failed''
                                                   verificationData p (payments w1)
                                 in (OkPayment p' populated, w1\<lparr>payments := ps'\<rparr>)))))
             else (OkPayment p populated, w)))"

subsection \<open>POST /webhook/paystack\<close>

text \<open>
  The signature header is \<open>None\<close> when the request has none. \<open>JSON.parse\<close> reads the
  text of the body.
\<close>

definition webhook_event :: "env \<Rightarrow> jsval \<Rightarrow> world \<Rightarrow> response \<times> world" where
  "webhook_event e event w =
     (case getprop event ''event'' of
        Inl err \<Rightarrow> (JsonFailure 500 ''Webhook processing failed'' err, w)
      | Inr name \<Rightarrow>
         if name = JStr ''charge.success'' then
           (case getprop event ''data'' of
              Inl err \<Rightarrow> (JsonFailure 500 ''Webhook processing failed'' err, w)
            | Inr d \<Rightarrow>
               (case getprop d ''reference'' of
                  Inl err \<Rightarrow> (JsonFailure 500 ''Webhook processing failed'' err, w)
                | Inr r \<Rightarrow>
                   (case getprop d ''id'' of
                      Inl err \<Rightarrow> (JsonFailure 500 ''Webhook processing failed'' err, w)
                    | Inr tid \<Rightarrow>
                       (case findOne_payload_reference e r (payments w) of
                          Inl err \<Rightarrow> (JsonFailure 500 ''Webhook processing failed'' err, w)
                        | Inr None \<Rightarrow> (SendStatus 200, w)
                        | Inr (Some p) \<Rightarrow>
                           if status p \<noteq> completed then
                             (let (p', ps') = markAsCompleted (clk e) tid d p (payments w);
                                  w1 = w\<lparr>payments := ps'\<rparr>
                              in case findById_booking (booking p') (bookings w1) of
                                   None \<Rightarrow> (SendStatus 200, w1)
                                 | Some b \<Rightarrow> (SendStatus 200, snd (confirm_booking (clk e) b w1)))
                           else (SendStatus 200, w)))))
         else if name = JStr ''charge.failed'' then
           (case getprop event ''data'' of
              Inl err \<Rightarrow> (JsonFailure 500 ''Webhook processing failed'' err, w)
            | Inr d \<Rightarrow>
               (case getprop d ''reference'' of
                  Inl err \<Rightarrow> (JsonFailure 500 ''Webhook processing failed'' err, w)
                | Inr r \<Rightarrow>
                   (case findOne_payload_reference e r (payments w) of
                      Inl err \<Rightarrow> (JsonFailure 500 ''Webhook processing failed'' err, w)
                    | Inr None \<Rightarrow> (SendStatus 200, w)
                    | Inr (Some p) \<Rightarrow>
                       (let (p', ps') = markAsFailed (clk e) ''Payment failed'' d p (payments w)
                        in (SendStatus 200, w\<lparr>payments := ps'\<rparr>)))))
         else (SendStatus 200, w))"

definition webhook_paystack :: "env \<Rightarrow> string option \<Rightarrow> string \<Rightarrow> world \<Rightarrow> response \<times> world" where
  "webhook_paystack e signature body w =
     (case signature of
        None \<Rightarrow> (JsonError 400 ''Invalid signature'', w)
      | Some s \<Rightarrow>
         if s = [] \<or> \<not> verifyPaystackSignature e body s
         then (JsonError 400 ''Invalid signature'', w)
         else (case JSON_parse e body of
                 Inl err \<Rightarrow> (JsonFailure 500 ''Webhook processing failed'' err, w)
               | Inr event \<Rightarrow> webhook_event e event w))"

section \<open>Worked scenario\<close>

text \<open>
  Concrete surroundings for the worked examples below: one user with one booking that
  carries the user's id, a provider that accepts and one that refuses, a keyed text
  function standing in for the HMAC parameter, ObjectIds as 24 hexadecimal digits, and a
  lookup by value that knows the operator object \<open>{"$ne": null}\<close> (the general theorems
  quantify over all of these).
\<close>

definition ex_clock :: "nat \<Rightarrow> clock" where
  "ex_clock t = \<lparr>now = t, now_text = decimal t, random_text = ''K3J9X0QZA''\<rparr>"

definition ex_hmac :: "string \<Rightarrow> string \<Rightarrow> string" where
  "ex_hmac key text = key @ ''|'' @ text"

definition ex_failed_body :: string where
  \<open>ex_failed_body = ''{"event":"charge.failed","data":{"reference":"PAY_1_A"}}''\<close>

definition ex_failed_event :: jsval where
  "ex_failed_event =
     JObj [(''event'', JStr ''charge.failed''), (''data'', JObj [(''reference'', JStr ''PAY_1_A'')])]"

definition ex_success_body :: string where
  \<open>ex_success_body = ''{"event":"charge.success","data":{"reference":"PAY_1_A","id":42}}''\<close>

definition ex_success_event :: jsval where
  "ex_success_event =
     JObj [(''event'', JStr ''charge.success''),
           (''data'', JObj [(''reference'', JStr ''PAY_1_A''), (''id'', JNum 42)])]"

definition ex_operator_body :: string where
  \<open>ex_operator_body = ''{"event":"charge.failed","data":{"reference":{"$ne":null}}}''\<close>

definition ex_operator_event :: jsval where
  "ex_operator_event =
     JObj [(''event'', JStr ''charge.failed''),
           (''data'', JObj [(''reference'', JObj [(''$ne'', JNull)])])]"

definition ex_parse :: "string \<Rightarrow> error + jsval" where
  "ex_parse s = (if s = ex_failed_body then Inr ex_failed_event
                 else if s = ex_success_body then Inr ex_success_event
                 else if s = ex_operator_body then Inr ex_operator_event
                 else Inl SyntaxError)"

definition ex_gateway_ok :: "gateway_call \<Rightarrow> error + jsval" where
  "ex_gateway_ok call =
     (case call of
        InitializeTransaction a m r c i b \<Rightarrow>
          Inr (JObj [(''status'', JBool True),
                     (''data'', JObj [(''authorization_url'', JStr ''https://checkout.paystack.com/x1''),
                                      (''access_code'', JStr ''x1'')])])
      | VerifyTransaction r \<Rightarrow>
          Inr (JObj [(''status'', JBool True),
                     (''data'', JObj [(''status'', JStr ''success''), (''id'', JNum 42)])]))"

definition ex_gateway_refused :: "gateway_call \<Rightarrow> error + jsval" where
  "ex_gateway_refused call =
     (case call of
        InitializeTransaction a m r c i b \<Rightarrow> Inr (JObj [(''status'', JBool False)])
      | VerifyTransaction r \<Rightarrow>
          Inr (JObj [(''status'', JBool True), (''data'', JObj [(''status'', JStr ''abandoned'')])]))"

definition ex_is_ObjectId :: "string \<Rightarrow> bool" where
  "ex_is_ObjectId s = (length s = 24 \<and> list_all (\<lambda>c. c \<in> set ''0123456789abcdef'') s)"

definition ex_findOne_by_value :: "jsval \<Rightarrow> payment list \<Rightarrow> error + payment option" where
  "ex_findOne_by_value v ps =
     (if v = JObj [(''$ne'', JNull)] then Inr (find (\<lambda>p. reference p \<noteq> []) ps)
      else if v = JNull \<or> v = JUndefined then Inr (find (\<lambda>p. reference p = []) ps)
      else Inl CastError)"

definition ex_env :: "nat \<Rightarrow> string \<Rightarrow> (gateway_call \<Rightarrow> error + jsval) \<Rightarrow> env" where
  "ex_env t i gw = \<lparr>clk = ex_clock t, new_id = i, gateway = gw, hmac_sha512_hex = ex_hmac,
                    JSON_parse = ex_parse, env_PAYSTACK_SECRET_KEY = Some ''sk_live_1'',
                    is_ObjectId = ex_is_ObjectId, findOne_by_value = ex_findOne_by_value\<rparr>"

definition ex_user :: user_doc where
  "ex_user = \<lparr>u_id = ''64f0a1b2c3d4e5f601234501'', u_firstName = ''Ada'', u_lastName = ''Obi'',
              u_email = ''ada@example.com''\<rparr>"

definition ex_booking :: booking_doc where
  "ex_booking = \<lparr>b_id = ''64f0a1b2c3d4e5f601234502'', b_user = Some ''64f0a1b2c3d4e5f601234501'',
                 b_testType = ''blood'', b_status = ''pending'', b_updatedAt = 0\<rparr>"

definition ex_world :: world where
  "ex_world = \<lparr>payments = [], bookings = [ex_booking], gateway_calls = []\<rparr>"

definition ex_request :: "string \<Rightarrow> init_request" where
  "ex_request m = \<lparr>req_bookingId = Some ''64f0a1b2c3d4e5f601234502'', req_amount = Some 5000,
                   req_paymentMethod = Some m, req_currency = None\<rparr>"

definition ex_completed :: payment where
  "ex_completed =
     \<lparr>pid = ''64f0a1b2c3d4e5f601234511'', user = ''64f0a1b2c3d4e5f601234501'',
      booking = ''64f0a1b2c3d4e5f601234502'', amount = 5000, currency = ''NGN'',
      paymentMethod = ''card'', paymentProvider = ''paystack'', status = completed,
      transactionId = JNum 42, reference = ''PAY_1_A'', providerResponse = JObj [],
      paidAt = Some 100, dueDate = None, description = [], notes_text = [],
      refundAmount = 0, refundedAt = None, refundReason = [], verified = True,
      verifiedAt = Some 100, failureReason = [], retryCount = 0, metadata = JObj []\<rparr>"

definition ex_paid_world :: world where
  "ex_paid_world = \<lparr>payments = [ex_completed], bookings = [ex_booking], gateway_calls = []\<rparr>"

definition ex_signature :: "string \<Rightarrow> string" where
  "ex_signature body = ex_hmac ''sk_live_1'' (JSON_stringify_Buffer body)"

definition ex_cash :: payment where
  "ex_cash = ex_completed\<lparr>pid := ''64f0a1b2c3d4e5f601234513'', paymentMethod := ''cash'',
               paymentProvider := ''cash'', status := pending, transactionId := JUndefined,
               reference := ''PAY_2_B'', paidAt := None, verified := False, verifiedAt := None\<rparr>"

definition ex_cash_world :: world where
  "ex_cash_world = \<lparr>payments = [ex_cash], bookings = [ex_booking], gateway_calls = []\<rparr>"

text \<open>
  A first attempt that a verify call has marked \<open>failed\<close>, and a second attempt for the
  same booking that is \<open>processing\<close>.
\<close>

definition ex_abandoned :: payment where
  "ex_abandoned = ex_completed\<lparr>status := failed, transactionId := JUndefined, paidAt := None,
                    verified := False, verifiedAt := None,
                    failureReason := ''Payment verification failed'', retryCount := 1\<rparr>"

definition ex_second_attempt :: payment where
  "ex_second_attempt = ex_completed\<lparr>pid := ''64f0a1b2c3d4e5f601234512'', status := processing,
                         transactionId := JUndefined, reference := ''PAY_3_C'', paidAt := None,
                         verified := False, verifiedAt := None\<rparr>"

definition ex_retry_world :: world where
  "ex_retry_world = \<lparr>payments = [ex_abandoned, ex_second_attempt], bookings = [ex_booking],
                      gateway_calls = []\<rparr>"

text \<open>
  The payments of a booking that are neither cancelled nor failed (the payments the
  specification allows at most one of).
\<close>

definition active_payments :: "string \<Rightarrow> payment list \<Rightarrow> payment list" where
  "active_payments b ps = filter (\<lambda>p. booking p = b \<and> status p \<noteq> cancelled \<and> status p \<noteq> failed) ps"

section \<open>Facts about the model\<close>

lemmas ex_defs = ex_clock_def ex_hmac_def ex_failed_body_def ex_failed_event_def ex_success_body_def
  ex_success_event_def ex_operator_body_def ex_operator_event_def ex_parse_def ex_gateway_ok_def
  ex_gateway_refused_def ex_is_ObjectId_def ex_findOne_by_value_def ex_env_def ex_user_def
  ex_booking_def ex_world_def ex_request_def ex_completed_def ex_paid_world_def ex_signature_def
  ex_cash_def ex_cash_world_def ex_abandoned_def ex_second_attempt_def ex_retry_world_def

lemmas model_defs = validate_def pre_save_def update_doc_def save_new_def save_def default_object_def
  markAsCompleted_def markAsFailed_def processRefund_def save_booking_def PAYSTACK_SECRET_KEY_def
  verifyPaystackSignature_def summary_def new_Payment_def initialize_online_def initialize_def
  findOne_reference_def findOne_payload_reference_def findById_booking_def confirm_booking_def
  verify_def webhook_event_def webhook_paystack_def

lemma status_pre_save [simp]: "status (pre_save c p) = status p"
  by (simp add: pre_save_def Let_def)

lemma pid_pre_save [simp]: "pid (pre_save c p) = pid p"
  by (simp add: pre_save_def Let_def)

lemma pre_save_plain:
  "status p \<noteq> completed \<Longrightarrow> status p \<noteq> refunded \<Longrightarrow>
   pre_save c p = (if reference p = []
                   then p\<lparr>reference := ''PAY_'' @ now_text c @ ''_'' @ random_text c\<rparr> else p)"
  by (simp add: pre_save_def Let_def)

lemma findOne_reference_update_doc:
  "findOne_reference r ps = Some p \<Longrightarrow> reference p' = r \<Longrightarrow> pid p' = pid p \<Longrightarrow>
   findOne_reference r (update_doc p' ps) = Some p'"
  unfolding findOne_reference_def
  by (induction ps) (auto simp add: update_doc_def split: if_splits)

lemma findOne_reference_found: "findOne_reference r ps = Some p \<Longrightarrow> reference p = r"
  unfolding findOne_reference_def
  by (induction ps) (auto split: if_splits)

lemma getprop_defined: "getprop v k = Inr x \<Longrightarrow> default_object v = v"
  by (cases v) (simp_all add: default_object_def)

lemma markAsFailed_stored:
  assumes "reference p \<noteq> []"
  shows "markAsFailed c reason resp p ps =
           (p\<lparr>status := failed, failureReason := reason, providerResponse := default_object resp,
              retryCount := retryCount p + 1\<rparr>,
            update_doc (p\<lparr>status := failed, failureReason := reason,
                          providerResponse := default_object resp,
                          retryCount := retryCount p + 1\<rparr>) ps)"
  using assms by (simp add: markAsFailed_def save_def pre_save_plain Let_def)

lemma digit_chars:
  "char_of (48::nat) = CHR ''0''" "char_of (49::nat) = CHR ''1''" "char_of (50::nat) = CHR ''2''"
  "char_of (51::nat) = CHR ''3''" "char_of (52::nat) = CHR ''4''" "char_of (53::nat) = CHR ''5''"
  "char_of (54::nat) = CHR ''6''" "char_of (55::nat) = CHR ''7''" "char_of (56::nat) = CHR ''8''"
  "char_of (57::nat) = CHR ''9''"
  by code_simp+

section \<open>The failure transition (C1)\<close>

text \<open>
  C1, as the specification states it: applying mark-failed to a payment whose status is
  \<open>completed\<close> leaves the status \<open>completed\<close>. The code has no such guard. Here a signed
  \<open>charge.failed\<close> webhook arrives for a completed payment: the handler answers 200 and
  the stored payment is \<open>failed\<close>.
\<close>

theorem C1_failure_after_completed_counterexample:
  "map status (payments ex_paid_world) = [completed] \<and>
   webhook_paystack (ex_env 300 ''p9'' ex_gateway_ok) (Some (ex_signature ex_failed_body))
       ex_failed_body ex_paid_world
     = (SendStatus 200,
        ex_paid_world\<lparr>payments := [ex_completed\<lparr>status := failed, failureReason := ''Payment failed'',
           providerResponse := JObj [(''reference'', JStr ''PAY_1_A'')], retryCount := 1\<rparr>]\<rparr>)"
  by (simp add: ex_defs model_defs Let_def)

text \<open>
  C1, as the code has it: \<open>markAsFailed\<close> is applied whatever the current status is. For
  a stored payment \<open>p\<close> with reference \<open>r\<close>, a signed \<open>charge.failed\<close> webhook naming \<open>r\<close>, and a
  verify call for \<open>r\<close> that the provider answers with a status other than \<open>success\<close>,
  both write \<open>p\<close> back with status \<open>failed\<close>, the failure reason, the provider payload and
  the retry count raised by one; every other field of \<open>p\<close> (\<open>paidAt\<close> among them) and every
  other part of the state is as before, except that the verify call is recorded.
\<close>

theorem C1_mark_failed_unguarded:
  assumes "findOne_reference r (payments w) = Some p" and "r \<noteq> []"
  shows "(signature = Some s \<and> s \<noteq> [] \<and> verifyPaystackSignature e body s \<and>
          JSON_parse e body = Inr event \<and> getprop event ''event'' = Inr (JStr ''charge.failed'') \<and>
          getprop event ''data'' = Inr d \<and> getprop d ''reference'' = Inr (JStr r) \<and>
          p' = p\<lparr>status := failed, failureReason := ''Payment failed'', providerResponse := d,
                 retryCount := retryCount p + 1\<rparr>
          \<longrightarrow> webhook_paystack e signature body w
                = (SendStatus 200, w\<lparr>payments := update_doc p' (payments w)\<rparr>) \<and>
              findOne_reference r (update_doc p' (payments w)) = Some p' \<and>
              status p' = failed \<and> providerResponse p' = d \<and> paidAt p' = paidAt p)
       \<and> (paymentMethod p \<noteq> ''cash'' \<and> gateway e (VerifyTransaction r) = Inr answer \<and>
          getprop answer ''data'' = Inr verificationData \<and>
          getprop verificationData ''status'' = Inr st \<and> st \<noteq> JStr ''success'' \<and>
          p'' = p\<lparr>status := failed, failureReason := ''Payment verification failed'',
                  providerResponse := verificationData, retryCount := retryCount p + 1\<rparr>
          \<longrightarrow> verify e r w
                = (OkPayment p'' (findById_booking (booking p) (bookings w)),
                   w\<lparr>gateway_calls := gateway_calls w @ [VerifyTransaction r],
                     payments := update_doc p'' (payments w)\<rparr>) \<and>
              findOne_reference r (update_doc p'' (payments w)) = Some p'' \<and>
              status p'' = failed \<and> providerResponse p'' = verificationData \<and>
              paidAt p'' = paidAt p)"
proof (intro conjI impI)
  have ref: "reference p = r" using assms(1) by (rule findOne_reference_found)
  then have ne: "reference p \<noteq> []" using assms(2) by simp
  {
    assume h: "signature = Some s \<and> s \<noteq> [] \<and> verifyPaystackSignature e body s \<and>
          JSON_parse e body = Inr event \<and> getprop event ''event'' = Inr (JStr ''charge.failed'') \<and>
          getprop event ''data'' = Inr d \<and> getprop d ''reference'' = Inr (JStr r) \<and>
          p' = p\<lparr>status := failed, failureReason := ''Payment failed'', providerResponse := d,
                 retryCount := retryCount p + 1\<rparr>"
    then have dd: "default_object d = d" by (intro getprop_defined [of d "''reference''" "JStr r"]) simp
    have m: "markAsFailed (clk e) ''Payment failed'' d p (payments w) = (p', update_doc p' (payments w))"
      using h dd markAsFailed_stored [OF ne, of "clk e" "''Payment failed''" d "payments w"] by simp
    show "webhook_paystack e signature body w
            = (SendStatus 200, w\<lparr>payments := update_doc p' (payments w)\<rparr>)"
      using h assms(1) m
      by (simp add: webhook_paystack_def webhook_event_def findOne_payload_reference_def)
    show "findOne_reference r (update_doc p' (payments w)) = Some p'"
      using h ref by (intro findOne_reference_update_doc [OF assms(1)]) simp_all
    show "status p' = failed" "providerResponse p' = d" "paidAt p' = paidAt p"
      using h by simp_all
  }
  {
    assume h: "paymentMethod p \<noteq> ''cash'' \<and> gateway e (VerifyTransaction r) = Inr answer \<and>
          getprop answer ''data'' = Inr verificationData \<and>
          getprop verificationData ''status'' = Inr st \<and> st \<noteq> JStr ''success'' \<and>
          p'' = p\<lparr>status := failed, failureReason := ''Payment verification failed'',
                  providerResponse := verificationData, retryCount := retryCount p + 1\<rparr>"
    then have dd: "default_object verificationData = verificationData"
      by (intro getprop_defined [of verificationData "''status''" st]) simp
    have m: "markAsFailed (clk e) ''Payment verification failed'' verificationData p (payments w)
               = (p'', update_doc p'' (payments w))"
      using h dd markAsFailed_stored [OF ne, of "clk e" "''Payment verification failed''"
          verificationData "payments w"] by simp
    show "verify e r w
            = (OkPayment p'' (findById_booking (booking p) (bookings w)),
               w\<lparr>gateway_calls := gateway_calls w @ [VerifyTransaction r],
                 payments := update_doc p'' (payments w)\<rparr>)"
      using h assms(1) m by (simp add: verify_def Let_def)
    show "findOne_reference r (update_doc p'' (payments w)) = Some p''"
      using h ref by (intro findOne_reference_update_doc [OF assms(1)]) simp_all
    show "status p'' = failed" "providerResponse p'' = verificationData" "paidAt p'' = paidAt p"
      using h by simp_all
  }
qed

text \<open>
  C1, the amended statement on the completed payment of the worked scenario: both
  triggers turn it into \<open>failed\<close> and store the payload they carried.
\<close>

theorem C1_mark_failed_unguarded_witness:
  "findOne_reference ''PAY_1_A'' (payments ex_paid_world) = Some ex_completed \<and>
   status ex_completed = completed \<and>
   webhook_paystack (ex_env 300 ''p9'' ex_gateway_refused)
       (Some (ex_signature ex_failed_body)) ex_failed_body ex_paid_world
     = (SendStatus 200,
        ex_paid_world\<lparr>payments := [ex_completed\<lparr>status := failed, failureReason := ''Payment failed'',
           providerResponse := JObj [(''reference'', JStr ''PAY_1_A'')], retryCount := 1\<rparr>]\<rparr>) \<and>
   verify (ex_env 300 ''p9'' ex_gateway_refused) ''PAY_1_A'' ex_paid_world
     = (OkPayment (ex_completed\<lparr>status := failed, failureReason := ''Payment verification failed'',
           providerResponse := JObj [(''status'', JStr ''abandoned'')], retryCount := 1\<rparr>)
          (Some ex_booking),
        ex_paid_world\<lparr>gateway_calls := [VerifyTransaction ''PAY_1_A''],
          payments := [ex_completed\<lparr>status := failed,
             failureReason := ''Payment verification failed'',
             providerResponse := JObj [(''status'', JStr ''abandoned'')], retryCount := 1\<rparr>]\<rparr>)"
proof -
  let ?e = "ex_env 300 ''p9'' ex_gateway_refused"
  let ?d = "JObj [(''reference'', JStr ''PAY_1_A'')]"
  let ?answer = "JObj [(''status'', JBool True), (''data'', JObj [(''status'', JStr ''abandoned'')])]"
  let ?vd = "JObj [(''status'', JStr ''abandoned'')]"
  let ?p1 = "ex_completed\<lparr>status := failed, failureReason := ''Payment failed'',
               providerResponse := ?d, retryCount := retryCount ex_completed + 1\<rparr>"
  let ?p2 = "ex_completed\<lparr>status := failed, failureReason := ''Payment verification failed'',
               providerResponse := ?vd, retryCount := retryCount ex_completed + 1\<rparr>"
  have f: "findOne_reference ''PAY_1_A'' (payments ex_paid_world) = Some ex_completed"
    by (simp add: findOne_reference_def ex_paid_world_def ex_completed_def)
  have n: "''PAY_1_A'' \<noteq> []" by simp
  have sig: "verifyPaystackSignature ?e ex_failed_body (ex_signature ex_failed_body)"
    by (simp add: verifyPaystackSignature_def PAYSTACK_SECRET_KEY_def ex_env_def ex_signature_def)
  have sne: "ex_signature ex_failed_body \<noteq> []"
    by (simp add: ex_signature_def ex_hmac_def)
  have parse: "JSON_parse ?e ex_failed_body = Inr ex_failed_event"
    by (simp add: ex_env_def ex_parse_def)
  have ev: "getprop ex_failed_event ''event'' = Inr (JStr ''charge.failed'')"
    and da: "getprop ex_failed_event ''data'' = Inr ?d"
    and re: "getprop ?d ''reference'' = Inr (JStr ''PAY_1_A'')"
    by (simp_all add: ex_failed_event_def)
  have gw: "gateway ?e (VerifyTransaction ''PAY_1_A'') = Inr ?answer"
    by (simp add: ex_env_def ex_gateway_refused_def)
  have g1: "getprop ?answer ''data'' = Inr ?vd"
    and g2: "getprop ?vd ''status'' = Inr (JStr ''abandoned'')"
    and g3: "JStr ''abandoned'' \<noteq> JStr ''success''"
    and pm: "paymentMethod ex_completed \<noteq> ''cash''"
    and st: "status ex_completed = completed"
    by (simp_all add: ex_completed_def)
  have u1: "update_doc (ex_completed\<lparr>status := failed, failureReason := ''Payment failed'',
               providerResponse := ?d, retryCount := 1\<rparr>) (payments ex_paid_world)
             = [ex_completed\<lparr>status := failed, failureReason := ''Payment failed'',
               providerResponse := ?d, retryCount := 1\<rparr>]"
    and u2: "update_doc (ex_completed\<lparr>status := failed,
               failureReason := ''Payment verification failed'',
               providerResponse := ?vd, retryCount := 1\<rparr>) (payments ex_paid_world)
             = [ex_completed\<lparr>status := failed, failureReason := ''Payment verification failed'',
               providerResponse := ?vd, retryCount := 1\<rparr>]"
    and rc: "retryCount ex_completed + 1 = 1"
    and bk: "findById_booking (booking ex_completed) (bookings ex_paid_world) = Some ex_booking"
    and gc: "gateway_calls ex_paid_world = []"
    by (simp_all add: update_doc_def ex_paid_world_def ex_completed_def findById_booking_def
        ex_booking_def)
  from C1_mark_failed_unguarded [OF f n, of "Some (ex_signature ex_failed_body)"
      "ex_signature ex_failed_body" ?e ex_failed_body ex_failed_event ?d ?p1 ?answer ?vd
      "JStr ''abandoned''" ?p2]
  have "webhook_paystack ?e (Some (ex_signature ex_failed_body)) ex_failed_body ex_paid_world
          = (SendStatus 200, ex_paid_world\<lparr>payments := update_doc ?p1 (payments ex_paid_world)\<rparr>)"
    and "verify ?e ''PAY_1_A'' ex_paid_world
          = (OkPayment ?p2 (findById_booking (booking ex_completed) (bookings ex_paid_world)),
             ex_paid_world\<lparr>gateway_calls := gateway_calls ex_paid_world @ [VerifyTransaction ''PAY_1_A''],
               payments := update_doc ?p2 (payments ex_paid_world)\<rparr>)"
    using sig sne parse ev da re gw g1 g2 g3 pm by blast+
  then show ?thesis
    using f st by (simp add: rc u1 u2 bk gc)
qed

section \<open>The completion transition (C2)\<close>

text \<open>
  The webhook route applies \<open>markAsCompleted\<close> only to a payment that is not yet
  \<open>completed\<close>: a redelivered \<open>charge.success\<close> changes nothing.
\<close>

lemma webhook_success_on_completed_noop:
  assumes "getprop event ''event'' = Inr (JStr ''charge.success'')"
    and "getprop event ''data'' = Inr d" and "getprop d ''reference'' = Inr r"
    and "findOne_payload_reference e r (payments w) = Inr (Some p)" and "status p = completed"
  shows "webhook_event e event w = (SendStatus 200, w)"
proof -
  from assms(3) obtain tid where "getprop d ''id'' = Inr tid"
    by (cases d) auto
  with assms show ?thesis by (simp add: webhook_event_def)
qed

text \<open>
  C2: completing twice should give the record that completing once gives, with \<open>paidAt\<close>
  and \<open>verifiedAt\<close> set on the first transition only. The payment of the worked scenario
  was completed at instant 100. A redelivered webhook at instant 200 leaves \<open>paidAt\<close> at
  100, but a verify call at instant 200 that the provider answers with \<open>success\<close> moves
  \<open>paidAt\<close> and \<open>verifiedAt\<close> to 200: the verify route calls \<open>markAsCompleted\<close> without the
  status test of the webhook route, and \<open>markAsCompleted\<close> assigns the dates without the
  test of the save hook.
\<close>

theorem C2_second_completion_moves_paidAt:
  "map paidAt (payments ex_paid_world) = [Some 100] \<and>
   map status (payments ex_paid_world) = [completed] \<and>
   map paidAt (payments (snd (webhook_paystack (ex_env 200 ''p9'' ex_gateway_ok)
       (Some (ex_signature ex_success_body)) ex_success_body ex_paid_world))) = [Some 100] \<and>
   map paidAt (payments (snd (verify (ex_env 200 ''p9'' ex_gateway_ok) ''PAY_1_A'' ex_paid_world)))
     = [Some 200] \<and>
   map verifiedAt (payments (snd (verify (ex_env 200 ''p9'' ex_gateway_ok) ''PAY_1_A'' ex_paid_world)))
     = [Some 200] \<and>
   fst (markAsCompleted (ex_clock 200) (JNum 42) (JObj []) ex_completed [ex_completed])
     \<noteq> ex_completed"
  by (simp add: ex_defs model_defs Let_def)

section \<open>Refund (C4)\<close>

text \<open>
  C4: \<open>processRefund\<close> succeeds exactly from status \<open>completed\<close> with a refund amount of at
  most the payment amount, and then sets \<open>status = refunded\<close>, \<open>refundAmount\<close>,
  \<open>refundReason\<close> and \<open>refundedAt\<close> and writes the document; in every other status, and for
  every larger amount, it throws an error and leaves the document and the collection
  as they were.
\<close>

theorem C4_processRefund:
  "(status p = completed \<and> amt \<le> amount p \<longrightarrow>
      (\<exists>p'. processRefund c amt reason p ps = (None, p', update_doc p' ps) \<and>
            status p' = refunded \<and> refundAmount p' = amt \<and> refundReason p' = reason \<and>
            refundedAt p' = Some (now c) \<and>
            (reference p \<noteq> [] \<longrightarrow>
               p' = p\<lparr>status := refunded, refundAmount := amt, refundReason := reason,
                      refundedAt := Some (now c)\<rparr>)))
   \<and> (status p \<noteq> completed \<or> amount p < amt \<longrightarrow>
      (\<exists>msg. processRefund c amt reason p ps = (Some (Error msg), p, ps)))"
  by (auto simp add: processRefund_def save_def pre_save_def Let_def)

text \<open>
  C4 on the worked scenario: a refund of 2000 on the completed payment of 5000 succeeds,
  a refund of 6000 is refused, and a refund on a failed payment is refused.
\<close>

theorem C4_processRefund_witness:
  "status ex_completed = completed \<and> (2000::int) \<le> amount ex_completed \<and>
   fst (processRefund (ex_clock 400) 2000 ''duplicate charge'' ex_completed [ex_completed]) = None \<and>
   status (fst (snd (processRefund (ex_clock 400) 2000 ''duplicate charge'' ex_completed [ex_completed])))
     = refunded \<and>
   amount ex_completed < 6000 \<and>
   (\<exists>msg. processRefund (ex_clock 400) 6000 ''too much'' ex_completed [ex_completed]
      = (Some (Error msg), ex_completed, [ex_completed])) \<and>
   status (ex_completed\<lparr>status := failed\<rparr>) \<noteq> completed \<and>
   (\<exists>msg. processRefund (ex_clock 400) 10 ''not paid'' (ex_completed\<lparr>status := failed\<rparr>) []
      = (Some (Error msg), ex_completed\<lparr>status := failed\<rparr>, []))"
proof -
  have a: "status ex_completed = completed" and b: "(2000::int) \<le> amount ex_completed"
    and c: "amount ex_completed < 6000" and d: "status (ex_completed\<lparr>status := failed\<rparr>) \<noteq> completed"
    by (simp_all add: ex_completed_def)
  from C4_processRefund [of ex_completed 2000 "ex_clock 400" "''duplicate charge''" "[ex_completed]"]
    C4_processRefund [of ex_completed 6000 "ex_clock 400" "''too much''" "[ex_completed]"]
    C4_processRefund [of "ex_completed\<lparr>status := failed\<rparr>" 10 "ex_clock 400" "''not paid''" "[]"]
  show ?thesis using a b c d by auto
qed

lemma find_existing:
  assumes "q \<in> set ps" and "P q"
  shows "find P ps \<noteq> None"
  using assms by (auto simp add: find_None_iff)

lemma new_Payment_fields:
  "status (new_Payment e u bk b a cur m) = pending"
  "reference (new_Payment e u bk b a cur m) = []"
  "pid (new_Payment e u bk b a cur m) = new_id e"
  "booking (new_Payment e u bk b a cur m) = b"
  "amount (new_Payment e u bk b a cur m) = a"
  "paymentMethod (new_Payment e u bk b a cur m) = m"
  by (simp_all add: new_Payment_def)

lemma new_Payment_invalid: "\<not> validate (new_Payment e u bk b a cur m)"
  by (simp add: validate_def new_Payment_fields)

lemma save_new_new_Payment: "save_new c (new_Payment e u bk b a cur m) ps = Inl ValidationError"
  by (simp add: save_new_def new_Payment_invalid)

lemma initialize_outcomes:
  "initialize e u r w =
     (let bookingId = (case req_bookingId r of None \<Rightarrow> [] | Some b \<Rightarrow> b);
          amt = (case req_amount r of None \<Rightarrow> 0 | Some a \<Rightarrow> a)
      in if bookingId = [] \<or> amt = 0
         then (JsonError 400 ''Booking ID and amount are required'', w)
         else if \<not> is_ObjectId e bookingId
         then (JsonFailure 500 ''Failed to initialize payment'' CastError, w)
         else if find (\<lambda>b. b_id b = bookingId \<and> b_user b = Some (u_id u)) (bookings w) = None
         then (JsonError 404 ''Booking not found'', w)
         else if find (\<lambda>p. booking p = bookingId \<and> (status p = completed \<or> status p = processing))
                   (payments w) \<noteq> None
         then (JsonError 400 ''Payment already exists for this booking'', w)
         else (JsonFailure 500 ''Failed to initialize payment'' ValidationError, w))"
  by (simp add: initialize_def Let_def save_new_new_Payment split: option.splits)

lemma initialize_stores_nothing: "snd (initialize e u r w) = w"
  by (simp add: initialize_outcomes Let_def)

lemma initialize_status:
  "status_code (fst (initialize e u r w)) = 400 \<or> status_code (fst (initialize e u r w)) = 404 \<or>
   status_code (fst (initialize e u r w)) = 500"
  by (simp add: initialize_outcomes Let_def)

section \<open>One active payment per booking (C3)\<close>

text \<open>
  C3, as the specification states it: at most one payment that is neither cancelled nor
  failed exists per booking at any time, and an initialization for a booking with a
  \<open>completed\<close> or \<open>processing\<close> payment is rejected with the conflict error. Neither half
  holds as stated. In the first state below the booking has one active payment (a second
  attempt, \<open>processing\<close>) beside a failed first attempt; a signed \<open>charge.success\<close> webhook
  for the first attempt completes it, and the booking has two active payments. And for
  the booking with a completed payment, a request without an amount is rejected with
  "Booking ID and amount are required", and a request by a user the booking does not
  carry with "Booking not found": an error, but not the conflict error.
\<close>

theorem C3_second_active_payment_counterexample:
  "map status (active_payments ''64f0a1b2c3d4e5f601234502'' (payments ex_retry_world)) = [processing] \<and>
   map status (active_payments ''64f0a1b2c3d4e5f601234502''
      (payments (snd (webhook_paystack (ex_env 300 ''p9'' ex_gateway_ok)
         (Some (ex_signature ex_success_body)) ex_success_body ex_retry_world))))
     = [completed, processing] \<and>
   map status (payments ex_paid_world) = [completed] \<and>
   initialize (ex_env 500 ''64f0a1b2c3d4e5f601234519'' ex_gateway_ok) ex_user
       ((ex_request ''card'')\<lparr>req_amount := None\<rparr>) ex_paid_world
     = (JsonError 400 ''Booking ID and amount are required'', ex_paid_world) \<and>
   initialize (ex_env 500 ''64f0a1b2c3d4e5f601234519'' ex_gateway_ok)
       (ex_user\<lparr>u_id := ''64f0a1b2c3d4e5f601234509''\<rparr>) (ex_request ''card'') ex_paid_world
     = (JsonError 404 ''Booking not found'', ex_paid_world)"
  by (simp add: ex_defs model_defs active_payments_def Let_def)

text \<open>
  C3, as the code has it: when a stored payment of the requested booking is \<open>completed\<close>
  or \<open>processing\<close>, the initialize route answers with an error (400, 404 or 500; 400 or
  404 when the booking id casts to an ObjectId), stores no record and changes nothing,
  so the number of active payments of the booking stays what it was; when the request
  carries a booking id that casts and a non-zero amount, and the booking carries the
  user, the answer is the conflict error (status 400, "Payment already exists for this
  booking").
\<close>

theorem C3_conflict_rejected:
  assumes "q \<in> set (payments w)" and "req_bookingId r = Some (booking q)"
    and "status q = completed \<or> status q = processing"
  shows "snd (initialize e u r w) = w \<and>
         active_payments (booking q) (payments (snd (initialize e u r w)))
           = active_payments (booking q) (payments w) \<and>
         (status_code (fst (initialize e u r w)) = 400 \<or> status_code (fst (initialize e u r w)) = 404 \<or>
          status_code (fst (initialize e u r w)) = 500) \<and>
         (is_ObjectId e (booking q)
          \<longrightarrow> status_code (fst (initialize e u r w)) = 400 \<or>
              status_code (fst (initialize e u r w)) = 404) \<and>
         (booking q \<noteq> [] \<and> is_ObjectId e (booking q) \<and> req_amount r = Some a \<and> a \<noteq> 0 \<and>
          find (\<lambda>b. b_id b = booking q \<and> b_user b = Some (u_id u)) (bookings w) = Some bk
          \<longrightarrow> initialize e u r w = (JsonError 400 ''Payment already exists for this booking'', w))"
proof -
  have x: "find (\<lambda>p. booking p = booking q \<and> (status p = completed \<or> status p = processing)) (payments w)
          \<noteq> None"
    using assms(1,3) by (intro find_existing [of q]) auto
  have "is_ObjectId e (booking q)
          \<longrightarrow> status_code (fst (initialize e u r w)) = 400 \<or>
              status_code (fst (initialize e u r w)) = 404"
    using assms(2) x by (simp add: initialize_outcomes Let_def)
  moreover have "booking q \<noteq> [] \<and> is_ObjectId e (booking q) \<and> req_amount r = Some a \<and> a \<noteq> 0 \<and>
          find (\<lambda>b. b_id b = booking q \<and> b_user b = Some (u_id u)) (bookings w) = Some bk
          \<longrightarrow> initialize e u r w = (JsonError 400 ''Payment already exists for this booking'', w)"
    using assms(2) x by (simp add: initialize_outcomes Let_def)
  ultimately show ?thesis
    using initialize_stores_nothing [of e u r w] initialize_status [of e u r w] by simp
qed

text \<open>
  C3 on the worked scenario: a card initialization for the booking whose payment is
  already completed is refused with the conflict error and the state is unchanged.
\<close>

theorem C3_conflict_rejected_witness:
  "ex_completed \<in> set (payments ex_paid_world) \<and>
   req_bookingId (ex_request ''card'') = Some (booking ex_completed) \<and>
   status ex_completed = completed \<and>
   is_ObjectId (ex_env 500 ''64f0a1b2c3d4e5f601234519'' ex_gateway_ok) (booking ex_completed) \<and>
   initialize (ex_env 500 ''64f0a1b2c3d4e5f601234519'' ex_gateway_ok) ex_user (ex_request ''card'')
       ex_paid_world
     = (JsonError 400 ''Payment already exists for this booking'', ex_paid_world)"
proof -
  let ?e = "ex_env 500 ''64f0a1b2c3d4e5f601234519'' ex_gateway_ok"
  have a: "ex_completed \<in> set (payments ex_paid_world)"
    and b: "req_bookingId (ex_request ''card'') = Some (booking ex_completed)"
    and c: "status ex_completed = completed"
    and d: "booking ex_completed \<noteq> []" and f: "req_amount (ex_request ''card'') = Some 5000"
    and g: "find (\<lambda>b. b_id b = booking ex_completed \<and> b_user b = Some (u_id ex_user))
              (bookings ex_paid_world) = Some ex_booking"
    and i: "is_ObjectId ?e (booking ex_completed)"
    by (simp_all add: ex_paid_world_def ex_completed_def ex_request_def ex_booking_def ex_user_def
        ex_env_def ex_is_ObjectId_def)
  have h: "status ex_completed = completed \<or> status ex_completed = processing" using c by simp
  from C3_conflict_rejected [OF a b h, of ?e ex_user 5000 ex_booking]
  show ?thesis using a b c d f g i by simp
qed

section \<open>Webhook signature (C5, C6)\<close>

lemma decimal_not_empty: "decimal n \<noteq> []"
  by (subst decimal.simps) simp

lemma length_join_commas:
  "\<forall>x\<in>set xs. x \<noteq> [] \<Longrightarrow> length xs \<le> length (join_commas xs)"
proof (induction xs rule: join_commas.induct)
  case 1
  then show ?case by simp
next
  case (2 x)
  then show ?case by (cases x) simp_all
next
  case (3 x y ys)
  then show ?case by (cases x) simp_all
qed

lemma length_JSON_stringify_Buffer: "length payload < length (JSON_stringify_Buffer payload)"
proof -
  have "length (map (\<lambda>c. decimal (of_char c)) payload)
          \<le> length (join_commas (map (\<lambda>c. decimal (of_char c)) payload))"
    by (rule length_join_commas) (simp add: decimal_not_empty)
  then show ?thesis by (simp add: JSON_stringify_Buffer_def)
qed

text \<open>
  C5: the verifier should accept exactly when the HMAC of the raw body bytes equals the
  header. The code hashes \<open>JSON.stringify(payload)\<close>, and the payload is the Buffer that
  \<open>express.raw\<close> delivers: the hashed text is the serialized Buffer object, which is never
  the raw body. So the verifier accepts a header exactly when it equals the HMAC of that
  serialization, and the HMAC of the raw body itself is accepted only if the two hashes
  collide. The last conjunct shows the hashed text for the two-byte body \<open>{}\<close>.
\<close>

theorem C5_signature_over_serialized_buffer:
  \<open>(verifyPaystackSignature e payload signature
      \<longleftrightarrow> signature = hmac_sha512_hex e (PAYSTACK_SECRET_KEY e) (JSON_stringify_Buffer payload))
   \<and> JSON_stringify_Buffer payload \<noteq> payload
   \<and> (verifyPaystackSignature e payload (hmac_sha512_hex e (PAYSTACK_SECRET_KEY e) payload)
      \<longleftrightarrow> hmac_sha512_hex e (PAYSTACK_SECRET_KEY e) (JSON_stringify_Buffer payload)
          = hmac_sha512_hex e (PAYSTACK_SECRET_KEY e) payload)
   \<and> JSON_stringify_Buffer ''{}'' = ''{"type":"Buffer","data":[123,125]}''\<close>
proof -
  have "JSON_stringify_Buffer payload \<noteq> payload"
    using length_JSON_stringify_Buffer [of payload] by auto
  moreover have \<open>JSON_stringify_Buffer ''{}'' = ''{"type":"Buffer","data":[123,125]}''\<close>
    by (simp add: JSON_stringify_Buffer_def decimal.simps digit_chars)
  ultimately show ?thesis
    by (auto simp add: verifyPaystackSignature_def)
qed

text \<open>
  C6: the webhook handler fails closed. When the signature header is missing, empty, or
  different from the hash the verifier computes for the body, the handler answers 400
  and the state (payments, bookings, gateway calls) is unchanged.
\<close>

theorem C6_webhook_fails_closed:
  assumes "signature = None \<or> signature = Some [] \<or>
           (\<exists>s. signature = Some s \<and>
                s \<noteq> hmac_sha512_hex e (PAYSTACK_SECRET_KEY e) (JSON_stringify_Buffer body))"
  shows "webhook_paystack e signature body w = (JsonError 400 ''Invalid signature'', w)"
  using assms by (auto simp add: webhook_paystack_def verifyPaystackSignature_def)

text \<open>
  C6 on the worked scenario: a \<open>charge.success\<close> body with no header, with an empty header
  and with a forged header is rejected each time, and the state stays as it was.
\<close>

theorem C6_webhook_fails_closed_witness:
  "webhook_paystack (ex_env 300 ''p9'' ex_gateway_ok) None ex_success_body ex_paid_world
     = (JsonError 400 ''Invalid signature'', ex_paid_world) \<and>
   webhook_paystack (ex_env 300 ''p9'' ex_gateway_ok) (Some []) ex_success_body ex_paid_world
     = (JsonError 400 ''Invalid signature'', ex_paid_world) \<and>
   ''forged'' \<noteq> hmac_sha512_hex (ex_env 300 ''p9'' ex_gateway_ok)
       (PAYSTACK_SECRET_KEY (ex_env 300 ''p9'' ex_gateway_ok)) (JSON_stringify_Buffer ex_success_body) \<and>
   webhook_paystack (ex_env 300 ''p9'' ex_gateway_ok) (Some ''forged'') ex_success_body ex_paid_world
     = (JsonError 400 ''Invalid signature'', ex_paid_world)"
proof -
  let ?e = "ex_env 300 ''p9'' ex_gateway_ok"
  have n: "''forged'' \<noteq> hmac_sha512_hex ?e (PAYSTACK_SECRET_KEY ?e) (JSON_stringify_Buffer ex_success_body)"
    by (simp add: ex_env_def ex_hmac_def PAYSTACK_SECRET_KEY_def)
  from C6_webhook_fails_closed [of None ?e ex_success_body ex_paid_world]
    C6_webhook_fails_closed [of "Some []" ?e ex_success_body ex_paid_world]
    C6_webhook_fails_closed [of "Some ''forged''" ?e ex_success_body ex_paid_world]
  show ?thesis using n by simp
qed

section \<open>Initialization (C7, C8)\<close>

text \<open>
  The document that the initialize route builds has no reference: the schema requires
  one, and the hook that would generate it runs only after validation. So the first
  \<open>save\<close> of the route throws for every request that gets that far, and the route never
  stores a payment, never reaches the provider and never answers 201.
\<close>

lemma initialize_never_created: "fst (initialize e u r w) \<noteq> Created m s"
  by (simp add: initialize_outcomes Let_def)

text \<open>
  C7: initializing an online payment should call the gateway and, on the provider's
  success, store the payment as \<open>processing\<close> with the handles. For every request the
  route makes no gateway call and stores nothing, and its status is never 201; for the
  card request of the worked scenario, with a provider that would accept, the answer is
  500 with the validation error and the state is unchanged.
\<close>

theorem C7_online_initialize_fails_validation:
  "gateway_calls (snd (initialize e u r w)) = gateway_calls w \<and>
   payments (snd (initialize e u r w)) = payments w \<and>
   status_code (fst (initialize e u r w)) \<noteq> 201 \<and>
   initialize (ex_env 100 ''64f0a1b2c3d4e5f601234511'' ex_gateway_ok) ex_user (ex_request ''card'')
       ex_world
     = (JsonFailure 500 ''Failed to initialize payment'' ValidationError, ex_world)"
proof -
  have "status_code (fst (initialize e u r w)) \<noteq> 201"
    using initialize_status [of e u r w] by auto
  moreover have "initialize (ex_env 100 ''64f0a1b2c3d4e5f601234511'' ex_gateway_ok) ex_user
       (ex_request ''card'') ex_world
     = (JsonFailure 500 ''Failed to initialize payment'' ValidationError, ex_world)"
    by (simp add: initialize_outcomes Let_def ex_request_def ex_env_def ex_is_ObjectId_def
        ex_world_def ex_booking_def ex_user_def)
  ultimately show ?thesis
    by (simp add: initialize_stores_nothing)
qed

text \<open>
  C8: initializing a cash payment should store a \<open>pending\<close> payment and return it with
  201. The payment document of any request fails validation (its reference is unset), so
  saving it throws; for the cash request of the worked scenario the answer is 500 with
  the validation error, and no payment is stored. No gateway call is made.
\<close>

theorem C8_cash_initialize_fails_validation:
  "reference (new_Payment e u bk b a cur m) = [] \<and>
   \<not> validate (new_Payment e u bk b a cur m) \<and>
   save_new c (new_Payment e u bk b a cur m) ps = Inl ValidationError \<and>
   initialize (ex_env 100 ''64f0a1b2c3d4e5f601234511'' ex_gateway_ok) ex_user (ex_request ''cash'')
       ex_world
     = (JsonFailure 500 ''Failed to initialize payment'' ValidationError, ex_world) \<and>
   payments ex_world = [] \<and> gateway_calls ex_world = []"
proof -
  have "initialize (ex_env 100 ''64f0a1b2c3d4e5f601234511'' ex_gateway_ok) ex_user
       (ex_request ''cash'') ex_world
     = (JsonFailure 500 ''Failed to initialize payment'' ValidationError, ex_world)"
    by (simp add: initialize_outcomes Let_def ex_request_def ex_env_def ex_is_ObjectId_def
        ex_world_def ex_booking_def ex_user_def)
  then show ?thesis
    by (simp add: new_Payment_fields new_Payment_invalid save_new_new_Payment ex_world_def)
qed

section \<open>Webhook acknowledgement (C9)\<close>

lemma getprop_Inl: "getprop v k = Inl err \<Longrightarrow> v = JUndefined \<or> v = JNull"
  by (cases v) simp_all





text \<open>
  A reference that is not a string is handed to the lookup as it is. With the lookup of
  the worked scenario, a signed \<open>charge.failed\<close> event whose reference is the operator
  object \<open>{"$ne": null}\<close> selects the stored payment and marks it \<open>failed\<close>.
\<close>

lemma webhook_operator_reference_example:
  "webhook_paystack (ex_env 300 ''p9'' ex_gateway_ok) (Some (ex_signature ex_operator_body))
       ex_operator_body ex_paid_world
     = (SendStatus 200,
        ex_paid_world\<lparr>payments := [ex_completed\<lparr>status := failed, failureReason := ''Payment failed'',
           providerResponse := JObj [(''reference'', JObj [(''$ne'', JNull)])], retryCount := 1\<rparr>]\<rparr>)"
  by (simp add: ex_defs model_defs Let_def)

section \<open>Verifying a cash payment (C10)\<close>

text \<open>
  C10: for a stored payment whose method is \<open>cash\<close>, the verify route makes no gateway
  call (the list of calls is unchanged and the result does not depend on the provider),
  leaves the whole state unchanged, and answers 200 with the record it found.
\<close>

theorem C10_verify_cash_unchanged:
  assumes "findOne_reference ref (payments w) = Some p" and "paymentMethod p = ''cash''"
  shows "verify e ref w = (OkPayment p (findById_booking (booking p) (bookings w)), w) \<and>
         status_code (fst (verify e ref w)) = 200 \<and>
         gateway_calls (snd (verify e ref w)) = gateway_calls w \<and>
         verify (e\<lparr>gateway := g\<rparr>) ref w = verify e ref w"
  using assms by (simp add: verify_def Let_def)

text \<open>
  C10 on the worked scenario: verifying the pending cash payment returns it, with its
  booking, and the state is unchanged.
\<close>

theorem C10_verify_cash_unchanged_witness:
  "findOne_reference ''PAY_2_B'' (payments ex_cash_world) = Some ex_cash \<and>
   paymentMethod ex_cash = ''cash'' \<and>
   verify (ex_env 300 ''p9'' ex_gateway_ok) ''PAY_2_B'' ex_cash_world
     = (OkPayment ex_cash (Some ex_booking), ex_cash_world)"
proof -
  have a: "findOne_reference ''PAY_2_B'' (payments ex_cash_world) = Some ex_cash"
    and b: "paymentMethod ex_cash = ''cash''"
    and c: "findById_booking (booking ex_cash) (bookings ex_cash_world) = Some ex_booking"
    by (simp_all add: findOne_reference_def findById_booking_def ex_cash_world_def ex_cash_def
        ex_completed_def ex_booking_def)
  from C10_verify_cash_unchanged [OF a b, of "ex_env 300 ''p9'' ex_gateway_ok"]
  show ?thesis using a b c by simp
qed

end
